theory Spec2Isabelle
  imports Main "HOL-Library.Word"
begin

section \<open>The gateway of src/index.js: data model\<close>

text \<open>
  The handlers of \<^verbatim>\<open>src/index.js\<close> run against three collaborators: the file system
  (\<^verbatim>\<open>fs\<close>), the generative model (\<^verbatim>\<open>model.generateContent\<close>) and whatever else touches
  the upload directory while a handler is suspended at an \<^verbatim>\<open>await\<close>. Each is a value
  here: the file system is a map from paths to what is there (a file with its bytes, or
  something that exists but cannot be read), together with the paths that the operating
  system refuses to unlink although they exist; the model is a function
  from its argument to a thrown error or a generated text; and the outside world is a
  function on the file system that is applied at the suspension point.
\<close>

type_synonym byte = "8 word"

text \<open>
  The error codes with which a file system call refuses a path that exists. What is at
  a path: a file with its bytes, or something that cannot be read, with the code that
  reading it gives (a directory gives \<open>EISDIR\<close>). Unlinking may be refused as well: for
  each path the refusal in force, if any.
\<close>

datatype refusal = EISDIR | EPERM | EACCES | EBUSY

datatype node = File "byte list" | Unreadable refusal

type_synonym filesystem = "string \<rightharpoonup> node"

type_synonym refusals = "string \<rightharpoonup> refusal"

text \<open>
  A thrown JavaScript error: a plain \<^verbatim>\<open>Error\<close> with its message (what the backend
  throws), the not-found error of a file system call (system call, path), or the
  refusal of a file system call on a path that exists (code, system call, and the path
  when Node reports one). The handlers only ever read the \<^verbatim>\<open>message\<close>, which Node
  composes as \<^verbatim>\<open><code>: <description>, <syscall> '<path>'\<close>.
\<close>

datatype js_error =
  Error string | ENOENT string string | Refused refusal string "string option"

fun code :: "refusal \<Rightarrow> string" where
  "code EISDIR = ''EISDIR''"
| "code EPERM = ''EPERM''"
| "code EACCES = ''EACCES''"
| "code EBUSY = ''EBUSY''"

fun description :: "refusal \<Rightarrow> string" where
  "description EISDIR = ''illegal operation on a directory''"
| "description EPERM = ''operation not permitted''"
| "description EACCES = ''permission denied''"
| "description EBUSY = ''resource busy or locked''"

definition quoted :: "string \<Rightarrow> string" where
  "quoted p = [CHR 0x27] @ p @ [CHR 0x27]"

fun message :: "js_error \<Rightarrow> string" where
  "message (Error m) = m"
| "message (ENOENT syscall p) =
     ''ENOENT: no such file or directory, '' @ syscall @ '' '' @ quoted p"
| "message (Refused r syscall None) = code r @ '': '' @ description r @ '', '' @ syscall"
| "message (Refused r syscall (Some p)) =
     code r @ '': '' @ description r @ '', '' @ syscall @ '' '' @ quoted p"

text \<open>\<^verbatim>\<open>req.file\<close> as the handlers read it: \<^verbatim>\<open>path\<close> and \<^verbatim>\<open>mimetype\<close>.\<close>

record upload =
  path :: string
  mimetype :: string

text \<open>
  The request after the upload middleware: \<^verbatim>\<open>req.file\<close> (absent when no file was
  attached) and \<^verbatim>\<open>req.body.prompt\<close> (absent, or a string that may be empty).
\<close>

record request =
  req_file :: "upload option"
  body_prompt :: "string option"


text \<open>
  What \<^verbatim>\<open>model.generateContent\<close> is given: the bare prompt (text endpoint) or an
  array of parts, a string followed by an \<^verbatim>\<open>{inlineData: {data, mimeType}}\<close> object.
\<close>

datatype part = Text string | InlineData (part_data: string) (part_mimeType: string)

datatype gen_input = Prompt "string option" | Parts "part list"

type_synonym backend = "gen_input \<Rightarrow> js_error + string"

datatype body = TextBody string | ErrorBody string

type_synonym response = "nat \<times> body"

text \<open>
  The observable steps of one invocation, in order. An \<open>Unlink\<close> records where in the
  handler \<^verbatim>\<open>fs.unlinkSync\<close> was called (inside \<^verbatim>\<open>try\<close> or inside \<^verbatim>\<open>catch\<close>), on which
  path, and the error it threw (\<open>None\<close> when it returned normally).
\<close>

datatype site = InTry | InCatch

datatype event = ReadFile string | Generate gen_input | Unlink site string "js_error option"

text \<open>
  The outcome of an invocation: the response sent (\<open>None\<close> when an exception left the
  handler before any response was sent), the steps taken, the file system afterwards.
\<close>

record outcome =
  response :: "response option"
  events :: "event list"
  fs_after :: filesystem

section \<open>The file system calls\<close>

text \<open>
  \<^verbatim>\<open>fs.readFileSync\<close> throws not-found on a missing path and the refusal on a path
  that cannot be read: a directory is opened and refused at the read, without a path in
  the message; any other refusal comes from the open.
\<close>

definition readFileSync :: "filesystem \<Rightarrow> string \<Rightarrow> js_error + byte list" where
  "readFileSync fs p =
     (case fs p of
        None \<Rightarrow> Inl (ENOENT ''open'' p)
      | Some (File bs) \<Rightarrow> Inr bs
      | Some (Unreadable r) \<Rightarrow>
          Inl (if r = EISDIR then Refused r ''read'' None else Refused r ''open'' (Some p)))"

definition existsSync :: "filesystem \<Rightarrow> string \<Rightarrow> bool" where
  "existsSync fs p = (fs p \<noteq> None)"

text \<open>
  \<^verbatim>\<open>fs.unlinkSync\<close> throws not-found on a missing path, throws the refusal in force on
  a path that exists (a directory, a file in a directory that may not be written, a
  file held open elsewhere), and removes the path otherwise.
\<close>

definition unlinkSync :: "refusals \<Rightarrow> filesystem \<Rightarrow> string \<Rightarrow> js_error + filesystem" where
  "unlinkSync busy fs p =
     (if existsSync fs p then
        (case busy p of
           None \<Rightarrow> Inr (fs(p := None))
         | Some r \<Rightarrow> Inl (Refused r ''unlink'' (Some p)))
      else Inl (ENOENT ''unlink'' p))"

section \<open>Base64, as \<^verbatim>\<open>Buffer.toString("base64")\<close> produces it\<close>

text \<open>
  The standard alphabet with \<^verbatim>\<open>=\<close> padding: three bytes become four characters of six
  bits each; a last group of one or two bytes is padded to four characters.
\<close>

definition alphabet :: string where
  "alphabet = ''ABCDEFGHIJKLMNOPQRSTUVWXYZabcdefghijklmnopqrstuvwxyz0123456789+/''"

definition enc_char :: "nat \<Rightarrow> char" where
  "enc_char i = alphabet ! i"

fun index_of :: "'a \<Rightarrow> 'a list \<Rightarrow> nat option" where
  "index_of x [] = None"
| "index_of x (y # ys) = (if x = y then Some 0 else map_option Suc (index_of x ys))"

definition dec_char :: "char \<Rightarrow> nat option" where
  "dec_char c = index_of c alphabet"

fun base64 :: "byte list \<Rightarrow> string" where
  "base64 [] = []"
| "base64 [a] =
     [enc_char (unat a div 4), enc_char ((unat a mod 4) * 16), CHR ''='', CHR ''='']"
| "base64 [a, b] =
     [enc_char (unat a div 4), enc_char ((unat a mod 4) * 16 + unat b div 16),
      enc_char ((unat b mod 16) * 4), CHR ''='']"
| "base64 (a # b # c # rest) =
     [enc_char (unat a div 4), enc_char ((unat a mod 4) * 16 + unat b div 16),
      enc_char ((unat b mod 16) * 4 + unat c div 64), enc_char (unat c mod 64)] @ base64 rest"

text \<open>
  The inverse direction, strict: the length is a multiple of four, padding only ends
  the text, every other character is in the alphabet.
\<close>

fun base64_decode :: "string \<Rightarrow> byte list option" where
  "base64_decode [] = Some []"
| "base64_decode (c1 # c2 # c3 # c4 # rest) =
     (case (dec_char c1, dec_char c2) of
        (Some s1, Some s2) \<Rightarrow>
          (if c3 = CHR ''='' \<and> c4 = CHR ''='' \<and> rest = [] then
             Some [of_nat (s1 * 4 + s2 div 16)]
           else
             (case dec_char c3 of
                Some s3 \<Rightarrow>
                  (if c4 = CHR ''='' \<and> rest = [] then
                     Some [of_nat (s1 * 4 + s2 div 16), of_nat ((s2 mod 16) * 16 + s3 div 4)]
                   else
                     (case dec_char c4 of
                        Some s4 \<Rightarrow>
                          map_option
                            (\<lambda>bs. of_nat (s1 * 4 + s2 div 16) #
                                   of_nat ((s2 mod 16) * 16 + s3 div 4) #
                                   of_nat ((s3 mod 4) * 64 + s4) # bs)
                            (base64_decode rest)
                      | None \<Rightarrow> None))
              | None \<Rightarrow> None))
      | _ \<Rightarrow> None)"
| "base64_decode _ = None"

section \<open>The helper \<^verbatim>\<open>fileToGenerativePart\<close> (lines 15-22)\<close>

definition fileToGenerativePart :: "filesystem \<Rightarrow> string \<Rightarrow> string \<Rightarrow> js_error + part" where
  "fileToGenerativePart fs filePath mimeType =
     (case readFileSync fs filePath of
        Inl e \<Rightarrow> Inl e
      | Inr bs \<Rightarrow> Inr (InlineData (base64 bs) mimeType))"

section \<open>The handlers\<close>

text \<open>\<^verbatim>\<open>a || b\<close> on an optional string: absent and empty are both falsy.\<close>

definition js_or :: "string option \<Rightarrow> string \<Rightarrow> string" where
  "js_or a b = (case a of None \<Rightarrow> b | Some s \<Rightarrow> if s = [] then b else s)"

definition after :: "event list \<Rightarrow> outcome \<Rightarrow> outcome" where
  "after evs out = out\<lparr>events := evs @ events out\<rparr>"

text \<open>
  The \<^verbatim>\<open>catch (error)\<close> block, the same text in the three media handlers
  (lines 72-78, 103-109, 134-140). When its \<^verbatim>\<open>unlinkSync\<close> throws, the exception
  leaves the handler and \<^verbatim>\<open>res.status(500)\<close> is not reached.
\<close>

definition catch_block :: "request \<Rightarrow> js_error \<Rightarrow> refusals \<Rightarrow> filesystem \<Rightarrow> outcome" where
  "catch_block req error busy fs =
     (case req_file req of
        Some f \<Rightarrow>
          (if existsSync fs (path f) then
             (case unlinkSync busy fs (path f) of
                Inl e \<Rightarrow>
                  \<lparr>response = None, events = [Unlink InCatch (path f) (Some e)], fs_after = fs\<rparr>
              | Inr fs' \<Rightarrow>
                  \<lparr>response = Some (500, ErrorBody (message error)),
                   events = [Unlink InCatch (path f) None], fs_after = fs'\<rparr>)
           else
             \<lparr>response = Some (500, ErrorBody (message error)), events = [], fs_after = fs\<rparr>)
      | None \<Rightarrow>
          \<lparr>response = Some (500, ErrorBody (message error)), events = [], fs_after = fs\<rparr>)"


text \<open>\<^verbatim>\<open>POST /generate-from-image\<close> (lines 55-79).\<close>

definition generate_from_image ::
  "request \<Rightarrow> backend \<Rightarrow> (filesystem \<Rightarrow> filesystem) \<Rightarrow> refusals \<Rightarrow> filesystem
     \<Rightarrow> outcome" where
  "generate_from_image req gen env busy fs =
     (case req_file req of
        None \<Rightarrow>
          \<lparr>response = Some (400, ErrorBody ''No image file uploaded.''), events = [],
           fs_after = fs\<rparr>
      | Some f \<Rightarrow>
          (let prompt = js_or (body_prompt req) ''Describe this image'' in
           case fileToGenerativePart fs (path f) (mimetype f) of
             Inl error \<Rightarrow> after [ReadFile (path f)] (catch_block req error busy fs)
           | Inr imagePart \<Rightarrow>
               (let input = Parts [Text prompt, imagePart]; fs1 = env fs in
                case gen input of
                  Inl error \<Rightarrow>
                    after [ReadFile (path f), Generate input] (catch_block req error busy fs1)
                | Inr text \<Rightarrow>
                    (case unlinkSync busy fs1 (path f) of
                       Inl error \<Rightarrow>
                         after [ReadFile (path f), Generate input,
                                Unlink InTry (path f) (Some error)]
                           (catch_block req error busy fs1)
                     | Inr fs2 \<Rightarrow>
                         \<lparr>response = Some (200, TextBody text),
                          events = [ReadFile (path f), Generate input, Unlink InTry (path f) None],
                          fs_after = fs2\<rparr>))))"

text \<open>\<^verbatim>\<open>POST /generate-from-document\<close> (lines 86-110).\<close>

definition generate_from_document ::
  "request \<Rightarrow> backend \<Rightarrow> (filesystem \<Rightarrow> filesystem) \<Rightarrow> refusals \<Rightarrow> filesystem
     \<Rightarrow> outcome" where
  "generate_from_document req gen env busy fs =
     (case req_file req of
        None \<Rightarrow>
          \<lparr>response = Some (400, ErrorBody ''No document file uploaded.''), events = [],
           fs_after = fs\<rparr>
      | Some f \<Rightarrow>
          (let prompt = js_or (body_prompt req) ''Summarize this document'' in
           case fileToGenerativePart fs (path f) (mimetype f) of
             Inl error \<Rightarrow> after [ReadFile (path f)] (catch_block req error busy fs)
           | Inr documentPart \<Rightarrow>
               (let input = Parts [Text prompt, documentPart]; fs1 = env fs in
                case gen input of
                  Inl error \<Rightarrow>
                    after [ReadFile (path f), Generate input] (catch_block req error busy fs1)
                | Inr text \<Rightarrow>
                    (case unlinkSync busy fs1 (path f) of
                       Inl error \<Rightarrow>
                         after [ReadFile (path f), Generate input,
                                Unlink InTry (path f) (Some error)]
                           (catch_block req error busy fs1)
                     | Inr fs2 \<Rightarrow>
                         \<lparr>response = Some (200, TextBody text),
                          events = [ReadFile (path f), Generate input, Unlink InTry (path f) None],
                          fs_after = fs2\<rparr>))))"

text \<open>\<^verbatim>\<open>POST /generate-from-audio\<close> (lines 117-141).\<close>

definition generate_from_audio ::
  "request \<Rightarrow> backend \<Rightarrow> (filesystem \<Rightarrow> filesystem) \<Rightarrow> refusals \<Rightarrow> filesystem
     \<Rightarrow> outcome" where
  "generate_from_audio req gen env busy fs =
     (case req_file req of
        None \<Rightarrow>
          \<lparr>response = Some (400, ErrorBody ''No audio file uploaded.''), events = [],
           fs_after = fs\<rparr>
      | Some f \<Rightarrow>
          (let prompt = js_or (body_prompt req) ''Transcribe this audio'' in
           case fileToGenerativePart fs (path f) (mimetype f) of
             Inl error \<Rightarrow> after [ReadFile (path f)] (catch_block req error busy fs)
           | Inr audioPart \<Rightarrow>
               (let input = Parts [Text prompt, audioPart]; fs1 = env fs in
                case gen input of
                  Inl error \<Rightarrow>
                    after [ReadFile (path f), Generate input] (catch_block req error busy fs1)
                | Inr text \<Rightarrow>
                    (case unlinkSync busy fs1 (path f) of
                       Inl error \<Rightarrow>
                         after [ReadFile (path f), Generate input,
                                Unlink InTry (path f) (Some error)]
                           (catch_block req error busy fs1)
                     | Inr fs2 \<Rightarrow>
                         \<lparr>response = Some (200, TextBody text),
                          events = [ReadFile (path f), Generate input, Unlink InTry (path f) None],
                          fs_after = fs2\<rparr>))))"

text \<open>The three media endpoints, by name.\<close>

datatype kind = Image | Document | Audio

fun handler ::
  "kind \<Rightarrow> request \<Rightarrow> backend \<Rightarrow> (filesystem \<Rightarrow> filesystem) \<Rightarrow> refusals \<Rightarrow> filesystem
     \<Rightarrow> outcome" where
  "handler Image = generate_from_image"
| "handler Document = generate_from_document"
| "handler Audio = generate_from_audio"

fun default_prompt :: "kind \<Rightarrow> string" where
  "default_prompt Image = ''Describe this image''"
| "default_prompt Document = ''Summarize this document''"
| "default_prompt Audio = ''Transcribe this audio''"

fun missing_message :: "kind \<Rightarrow> string" where
  "missing_message Image = ''No image file uploaded.''"
| "missing_message Document = ''No document file uploaded.''"
| "missing_message Audio = ''No audio file uploaded.''"

section \<open>Reading an outcome\<close>

fun is_unlink :: "event \<Rightarrow> bool" where
  "is_unlink (Unlink s p thrown) = True"
| "is_unlink e = False"

fun is_generate :: "event \<Rightarrow> bool" where
  "is_generate (Generate g) = True"
| "is_generate e = False"

definition unlink_count :: "outcome \<Rightarrow> nat" where
  "unlink_count out = length (filter is_unlink (events out))"

definition generate_count :: "outcome \<Rightarrow> nat" where
  "generate_count out = length (filter is_generate (events out))"

text \<open>Once an \<open>Unlink\<close> has happened, nothing but \<open>Unlink\<close>s follow.\<close>

fun cleanup_last :: "event list \<Rightarrow> bool" where
  "cleanup_last [] = True"
| "cleanup_last (e # es) = (if is_unlink e then list_all is_unlink es else cleanup_last es)"

section \<open>One pipeline with two parameters\<close>

text \<open>
  The pipeline the specification describes, written once: validate, resolve the prompt,
  build the parts, call the backend, clean up, respond. Its parameters are the default
  prompt and the message for a missing file. The multipart field name, the third
  constant in which the routes differ, is an argument of the upload middleware
  (\<^verbatim>\<open>upload.single\<close>), which has filled in \<^verbatim>\<open>req.file\<close> before a handler runs.
\<close>

definition pipeline ::
  "string \<Rightarrow> string \<Rightarrow> request \<Rightarrow> backend \<Rightarrow> (filesystem \<Rightarrow> filesystem) \<Rightarrow> refusals
     \<Rightarrow> filesystem \<Rightarrow> outcome" where
  "pipeline dflt missing req gen env busy fs =
     (case req_file req of
        None \<Rightarrow> \<lparr>response = Some (400, ErrorBody missing), events = [], fs_after = fs\<rparr>
      | Some f \<Rightarrow>
          (case readFileSync fs (path f) of
             Inl error \<Rightarrow> after [ReadFile (path f)] (catch_block req error busy fs)
           | Inr bs \<Rightarrow>
               (let input = Parts [Text (js_or (body_prompt req) dflt),
                                   InlineData (base64 bs) (mimetype f)]
                in case gen input of
                  Inl error \<Rightarrow>
                    after [ReadFile (path f), Generate input]
                      (catch_block req error busy (env fs))
                | Inr text \<Rightarrow>
                    (case unlinkSync busy (env fs) (path f) of
                       Inr fs2 \<Rightarrow>
                         \<lparr>response = Some (200, TextBody text),
                          events = [ReadFile (path f), Generate input, Unlink InTry (path f) None],
                          fs_after = fs2\<rparr>
                     | Inl error \<Rightarrow>
                         after [ReadFile (path f), Generate input,
                                Unlink InTry (path f) (Some error)]
                           (catch_block req error busy (env fs))))))"

section \<open>Sample collaborators and requests\<close>

text \<open>
  A backend that always gives the same result, an outside world that removes one file
  while the handler waits, one that leaves the disk alone, an operating system that
  refuses nothing, one that refuses to unlink one path, and two uploads on disk.
\<close>

definition no_refusal :: refusals where
  "no_refusal = Map.empty"

definition refusing :: "string \<Rightarrow> refusal \<Rightarrow> refusals" where
  "refusing p r = [p \<mapsto> r]"

definition always :: "js_error + string \<Rightarrow> backend" where
  "always r g = r"

definition removed :: "string \<Rightarrow> filesystem \<Rightarrow> filesystem" where
  "removed p fs = fs(p := None)"

definition undisturbed :: "filesystem \<Rightarrow> filesystem" where
  "undisturbed fs = fs"

definition demo_upload :: upload where
  "demo_upload = \<lparr>path = ''uploads/a1'', mimetype = ''image/png''\<rparr>"

definition demo_request :: request where
  "demo_request = \<lparr>req_file = Some demo_upload, body_prompt = None\<rparr>"

definition bare_request :: request where
  "bare_request = \<lparr>req_file = None, body_prompt = Some ''What is this?''\<rparr>"

definition doc_upload :: upload where
  "doc_upload = \<lparr>path = ''uploads/d7'', mimetype = ''application/pdf''\<rparr>"

definition doc_request :: request where
  "doc_request = \<lparr>req_file = Some doc_upload, body_prompt = Some ''Give three bullet points''\<rparr>"

definition doc_disk :: filesystem where
  "doc_disk = [''uploads/d7'' \<mapsto> File [0x25, 0x50, 0x44, 0x46]]"

definition demo_disk :: filesystem where
  "demo_disk = [''uploads/a1'' \<mapsto> File [0x4d, 0x61, 0x6e]]"

section \<open>Base64 decoding inverts encoding\<close>

lemma index_of_nth: "distinct xs \<Longrightarrow> i < length xs \<Longrightarrow> index_of (xs ! i) xs = Some i"
proof (induction xs arbitrary: i)
  case Nil
  then show ?case by simp
next
  case (Cons x xs)
  show ?case
  proof (cases i)
    case 0
    then show ?thesis by simp
  next
    case (Suc j)
    with Cons.prems have "xs ! j \<in> set xs" "x \<notin> set xs" by auto
    then have "xs ! j \<noteq> x" by auto
    with Suc Cons show ?thesis by auto
  qed
qed

lemma length_alphabet: "length alphabet = 64"
  by (simp add: alphabet_def)

lemma distinct_alphabet: "distinct alphabet"
  by (simp add: alphabet_def)

lemma pad_not_in_alphabet: "CHR ''='' \<notin> set alphabet"
  by (simp add: alphabet_def)

lemma dec_enc_char: "i < 64 \<Longrightarrow> dec_char (enc_char i) = Some i"
  by (simp add: dec_char_def enc_char_def index_of_nth distinct_alphabet length_alphabet)

lemma enc_char_not_pad: "i < 64 \<Longrightarrow> enc_char i \<noteq> CHR ''=''"
proof -
  assume "i < 64"
  then have "alphabet ! i \<in> set alphabet" by (simp add: length_alphabet)
  with pad_not_in_alphabet show ?thesis by (auto simp: enc_char_def)
qed

lemma unat_byte_bound: "unat (a :: byte) < 256"
  using unsigned_less [of a, where 'a = nat] by simp

lemma sextet1: "unat (a :: byte) div 4 < 64"
  using unat_byte_bound [of a] by arith

lemma sextet2: "unat (a :: byte) mod 4 * 16 + unat (b :: byte) div 16 < 64"
  using unat_byte_bound [of b] by arith

lemma sextet2_last: "unat (a :: byte) mod 4 * 16 < 64"
  by arith

lemma sextet3: "unat (b :: byte) mod 16 * 4 + unat (c :: byte) div 64 < 64"
  using unat_byte_bound [of c] by arith

lemma sextet3_last: "unat (b :: byte) mod 16 * 4 < 64"
  by arith

lemma sextet4: "unat (c :: byte) mod 64 < 64"
  by arith

lemma regroup1: "unat (a :: byte) div 4 * 4 + (unat a mod 4 * 16 + unat (b :: byte) div 16) div 16 = unat a"
  using unat_byte_bound [of b] by simp

lemma regroup2:
  "(unat (a :: byte) mod 4 * 16 + unat (b :: byte) div 16) mod 16 * 16 +
     (unat b mod 16 * 4 + unat (c :: byte) div 64) div 4 = unat b"
  using unat_byte_bound [of b] unat_byte_bound [of c] by simp

lemma regroup3: "(unat (b :: byte) mod 16 * 4 + unat (c :: byte) div 64) mod 4 * 64 + unat c mod 64 = unat c"
  using unat_byte_bound [of c] by simp

lemma decode_one:
  "base64_decode [enc_char (unat a div 4), enc_char (unat a mod 4 * 16), CHR ''='', CHR ''='']
     = Some [a]"
  by (simp add: dec_enc_char sextet1 sextet2_last)

lemma decode_two:
  "base64_decode [enc_char (unat a div 4), enc_char (unat a mod 4 * 16 + unat b div 16),
      enc_char (unat b mod 16 * 4), CHR ''='']
     = Some [a, b]"
proof -
  have "unat a div 4 * 4 + (unat a mod 4 * 16 + unat b div 16) div 16 = unat a"
    by (rule regroup1)
  moreover have "(unat a mod 4 * 16 + unat b div 16) mod 16 * 16 + unat b mod 16 * 4 div 4 = unat b"
    using unat_byte_bound [of b] by simp
  ultimately show ?thesis
    by (simp add: dec_enc_char sextet1 sextet2 sextet3_last enc_char_not_pad)
qed

lemma decode_group:
  assumes "s1 < 64" "s2 < 64" "s3 < 64" "s4 < 64"
  shows "base64_decode (enc_char s1 # enc_char s2 # enc_char s3 # enc_char s4 # cs) =
           map_option
             (\<lambda>bs. of_nat (s1 * 4 + s2 div 16) # of_nat (s2 mod 16 * 16 + s3 div 4) #
                    of_nat (s3 mod 4 * 64 + s4) # bs)
             (base64_decode cs)"
  using assms by (simp add: dec_enc_char enc_char_not_pad)

lemma decode_three:
  "base64_decode (enc_char (unat a div 4) # enc_char (unat a mod 4 * 16 + unat b div 16) #
      enc_char (unat b mod 16 * 4 + unat c div 64) # enc_char (unat c mod 64) # cs)
     = map_option (\<lambda>bs. a # b # c # bs) (base64_decode cs)"
  by (simp only: decode_group [OF sextet1 sextet2 sextet3 sextet4]
      regroup1 regroup2 regroup3 of_nat_unat ucast_id)

lemma base64_roundtrip: "base64_decode (base64 bs) = Some bs"
proof (induction bs rule: base64.induct)
  case 1
  show ?case by simp
next
  case (2 a)
  show ?case by (simp only: base64.simps decode_one)
next
  case (3 a b)
  show ?case by (simp only: base64.simps decode_two)
next
  case (4 a b c rest)
  then show ?case by (simp only: base64.simps append_Cons append_Nil decode_three option.map)
qed

section \<open>The three handlers as instances of the pipeline\<close>

lemmas demo_defs = always_def removed_def undisturbed_def demo_upload_def demo_request_def
  bare_request_def demo_disk_def doc_upload_def doc_request_def doc_disk_def no_refusal_def
  refusing_def

lemmas handler_defs = generate_from_image_def generate_from_document_def
  generate_from_audio_def fileToGenerativePart_def readFileSync_def unlinkSync_def
  existsSync_def catch_block_def after_def js_or_def Let_def

lemma generate_from_image_pipeline:
  "generate_from_image req gen env busy fs =
     pipeline ''Describe this image'' ''No image file uploaded.'' req gen env busy fs"
  by (simp add: generate_from_image_def pipeline_def fileToGenerativePart_def Let_def
      split: option.splits sum.splits node.splits)

lemma generate_from_document_pipeline:
  "generate_from_document req gen env busy fs =
     pipeline ''Summarize this document'' ''No document file uploaded.'' req gen env busy fs"
  by (simp add: generate_from_document_def pipeline_def fileToGenerativePart_def Let_def
      split: option.splits sum.splits node.splits)

lemma generate_from_audio_pipeline:
  "generate_from_audio req gen env busy fs =
     pipeline ''Transcribe this audio'' ''No audio file uploaded.'' req gen env busy fs"
  by (simp add: generate_from_audio_def pipeline_def fileToGenerativePart_def Let_def
      split: option.splits sum.splits node.splits)

lemma handler_pipeline:
  "handler k req gen env busy fs =
     pipeline (default_prompt k) (missing_message k) req gen env busy fs"
  by (cases k)
     (simp_all add: generate_from_image_pipeline generate_from_document_pipeline
        generate_from_audio_pipeline)


lemmas pipeline_defs = pipeline_def readFileSync_def existsSync_def unlinkSync_def
  catch_block_def after_def Let_def

lemma generate_events:
  "filter is_generate (events (handler k req gen env busy fs)) =
     (case req_file req of
        None \<Rightarrow> []
      | Some f \<Rightarrow>
          (case fs (path f) of
             Some (File bs) \<Rightarrow>
               [Generate (Parts [Text (js_or (body_prompt req) (default_prompt k)),
                                 InlineData (base64 bs) (mimetype f)])]
           | _ \<Rightarrow> []))"
  by (simp add: handler_pipeline pipeline_defs
      split: option.splits sum.splits node.splits)


section \<open>Cleanup of the uploaded file\<close>

text \<open>
  C1, as stated: in every invocation of a media endpoint that carries an uploaded file,
  the file is disposed exactly once, on every success and every failure path; with no
  file the count is zero. This fails on a failure path: the image endpoint is called
  with a file, the backend call fails, and the file has been removed from disk while
  the handler waited. The guard \<^verbatim>\<open>fs.existsSync\<close> of the catch block then skips
  \<^verbatim>\<open>fs.unlinkSync\<close>, so the number of disposals in that invocation is 0, not 1.
\<close>

theorem unlink_skipped_when_file_gone:
  "req_file demo_request = Some demo_upload \<and>
   unlink_count (handler Image demo_request (always (Inl (Error ''quota exceeded'')))
                   (removed ''uploads/a1'') no_refusal demo_disk) = 0"
  by (simp add: demo_defs handler_defs unlink_count_def)

text \<open>
  C1, amended: in every invocation of a media endpoint that carries an uploaded file,
  once \<^verbatim>\<open>fs.unlinkSync\<close> has been called nothing else (no read, no backend call)
  follows. When the operating system does not refuse to unlink the file,
  \<^verbatim>\<open>fs.unlinkSync\<close> is called at most once and the file is not on disk when the
  invocation ends; it is called exactly once, and succeeds, whenever the file is on disk
  both when the handler starts and when the backend call has resolved. With no uploaded
  file it is never called.
\<close>

theorem unlink_discipline:
  "(req_file req = None \<longrightarrow> unlink_count (handler k req gen env busy fs) = 0) \<and>
   (\<forall>f. req_file req = Some f \<longrightarrow>
      cleanup_last (events (handler k req gen env busy fs)) \<and>
      (busy (path f) = None \<longrightarrow>
         unlink_count (handler k req gen env busy fs) \<le> 1 \<and>
         fs_after (handler k req gen env busy fs) (path f) = None \<and>
         (existsSync fs (path f) \<and> existsSync (env fs) (path f) \<longrightarrow>
            (\<exists>s. filter is_unlink (events (handler k req gen env busy fs))
                   = [Unlink s (path f) None]))))"
  by (auto simp: handler_pipeline pipeline_defs unlink_count_def
      split: option.splits sum.splits node.splits)

theorem unlink_discipline_witness:
  "req_file demo_request = Some demo_upload \<and>
   no_refusal (path demo_upload) = None \<and>
   existsSync demo_disk (path demo_upload) \<and>
   existsSync (undisturbed demo_disk) (path demo_upload) \<and>
   filter is_unlink
     (events (handler Audio demo_request (always (Inr ''hello'')) undisturbed no_refusal demo_disk))
     = [Unlink InTry (path demo_upload) None] \<and>
   unlink_count (handler Audio demo_request (always (Inr ''hello'')) undisturbed no_refusal
     demo_disk) \<le> 1 \<and>
   cleanup_last
     (events (handler Audio demo_request (always (Inr ''hello'')) undisturbed no_refusal demo_disk)) \<and>
   fs_after (handler Audio demo_request (always (Inr ''hello'')) undisturbed no_refusal demo_disk)
     (path demo_upload) = None \<and>
   req_file bare_request = None \<and>
   unlink_count (handler Audio bare_request (always (Inr ''hello'')) undisturbed no_refusal
     demo_disk) = 0"
proof -
  have h1: "req_file demo_request = Some demo_upload"
    by (simp add: demo_defs)
  have h2: "existsSync demo_disk (path demo_upload) \<and>
      existsSync (undisturbed demo_disk) (path demo_upload)"
    by (simp add: demo_defs existsSync_def)
  have h3: "req_file bare_request = None"
    by (simp add: demo_defs)
  have h4: "no_refusal (path demo_upload) = None"
    by (simp add: demo_defs)
  have e: "filter is_unlink
     (events (handler Audio demo_request (always (Inr ''hello'')) undisturbed no_refusal demo_disk))
     = [Unlink InTry (path demo_upload) None]"
    by (simp add: demo_defs handler_defs)
  show ?thesis
    using h1 h2 h3 h4 e
      unlink_discipline [of demo_request Audio "always (Inr ''hello'')" undisturbed no_refusal
        demo_disk]
      unlink_discipline [of bare_request Audio "always (Inr ''hello'')" undisturbed no_refusal
        demo_disk]
    by simp
qed

text \<open>
  C2, at the failing input: the image endpoint is called with a file, the backend
  returns the text \<open>a cat\<close>, and the file has been removed from disk in the meantime.
  The \<^verbatim>\<open>fs.unlinkSync\<close> of line 69 throws before \<^verbatim>\<open>res.json({ text })\<close> is reached, the
  catch block answers, and the caller receives status 500 with the message of the
  unlink error instead of the generated text.
\<close>

theorem disposal_failure_becomes_500:
  "response (handler Image demo_request (always (Inr ''a cat'')) (removed ''uploads/a1'')
              no_refusal demo_disk)
     = Some (500, ErrorBody (message (ENOENT ''unlink'' ''uploads/a1'')))"
  by (simp add: demo_defs handler_defs)

text \<open>
  C3, at the failing input: the document endpoint is called with a file that is removed
  from disk during the backend call. Disposal of the missing file is not a no-op on the
  success branch: \<^verbatim>\<open>fs.unlinkSync\<close> raises the not-found error, and the invocation's
  steps end with the failed unlink inside \<^verbatim>\<open>try\<close>.
\<close>

theorem unlink_in_try_raises_on_missing_file:
  "unlinkSync no_refusal (removed ''uploads/d7'' doc_disk) ''uploads/d7''
     = Inl (ENOENT ''unlink'' ''uploads/d7'') \<and>
   events (handler Document doc_request (always (Inr ''summary'')) (removed ''uploads/d7'')
             no_refusal doc_disk)
     = [ReadFile ''uploads/d7'',
        Generate (Parts [Text ''Give three bullet points'',
                         InlineData ''JVBERg=='' ''application/pdf'']),
        Unlink InTry ''uploads/d7'' (Some (ENOENT ''unlink'' ''uploads/d7''))]"
  by (simp add: demo_defs handler_defs enc_char_def alphabet_def)

section \<open>Responses\<close>

text \<open>
  C4, as stated: whenever the backend call of a media endpoint fails with a message,
  the response is a 500 whose error field is that message, and the uploaded file is
  still disposed in that invocation. This fails twice. When the operating system
  refuses to unlink the file (here with \<open>EPERM\<close>), the \<^verbatim>\<open>fs.unlinkSync\<close> of the catch
  block throws, \<^verbatim>\<open>res.status(500)\<close> is never reached, no response is sent and the file
  stays on disk. When the file has gone from disk during the call, the 500 is sent but
  the guard \<^verbatim>\<open>fs.existsSync\<close> skips the disposal: the invocation unlinks nothing.
\<close>

theorem backend_message_lost_when_unlink_refused:
  "events (handler Audio demo_request (always (Inl (Error ''quota exceeded''))) undisturbed
             (refusing ''uploads/a1'' EPERM) demo_disk)
     = [ReadFile ''uploads/a1'',
        Generate (Parts [Text ''Transcribe this audio'', InlineData ''TWFu'' ''image/png'']),
        Unlink InCatch ''uploads/a1'' (Some (Refused EPERM ''unlink'' (Some ''uploads/a1'')))] \<and>
   response (handler Audio demo_request (always (Inl (Error ''quota exceeded''))) undisturbed
               (refusing ''uploads/a1'' EPERM) demo_disk) = None \<and>
   fs_after (handler Audio demo_request (always (Inl (Error ''quota exceeded''))) undisturbed
               (refusing ''uploads/a1'' EPERM) demo_disk) ''uploads/a1''
     = Some (File [0x4d, 0x61, 0x6e]) \<and>
   response (handler Audio demo_request (always (Inl (Error ''quota exceeded'')))
               (removed ''uploads/a1'') no_refusal demo_disk)
     = Some (500, ErrorBody ''quota exceeded'') \<and>
   filter is_unlink
     (events (handler Audio demo_request (always (Inl (Error ''quota exceeded'')))
                (removed ''uploads/a1'') no_refusal demo_disk)) = []"
  by (simp add: demo_defs handler_defs enc_char_def alphabet_def)

text \<open>
  C4, amended: when a media endpoint reaches the backend call (a file is attached and
  readable), the call fails with a message, and the operating system does not refuse to
  unlink the file if it is still on disk, then the response has status 500 and its error
  field is exactly that message, the backend has been called once (no retry), and the
  file is not on disk when the invocation ends: \<^verbatim>\<open>fs.unlinkSync\<close> is called once, in
  the catch block and with success, when the file is still on disk after the call, and
  not at all when it is already gone.
\<close>

theorem backend_failure_passed_through:
  assumes "req_file req = Some f"
    and "fs (path f) = Some (File bs)"
    and "gen (Parts [Text (js_or (body_prompt req) (default_prompt k)),
                     InlineData (base64 bs) (mimetype f)]) = Inl e"
    and "existsSync (env fs) (path f) \<longrightarrow> busy (path f) = None"
  shows "response (handler k req gen env busy fs) = Some (500, ErrorBody (message e)) \<and>
         generate_count (handler k req gen env busy fs) = 1 \<and>
         fs_after (handler k req gen env busy fs) (path f) = None \<and>
         filter is_unlink (events (handler k req gen env busy fs))
           = (if existsSync (env fs) (path f) then [Unlink InCatch (path f) None] else [])"
  using assms
  by (auto simp: handler_pipeline pipeline_defs generate_count_def
      split: option.splits sum.splits node.splits)

theorem backend_failure_passed_through_witness:
  "req_file demo_request = Some demo_upload \<and>
   demo_disk (path demo_upload) = Some (File [0x4d, 0x61, 0x6e]) \<and>
   always (Inl (Error ''quota exceeded''))
     (Parts [Text (js_or (body_prompt demo_request) (default_prompt Audio)),
             InlineData (base64 [0x4d, 0x61, 0x6e]) (mimetype demo_upload)])
     = Inl (Error ''quota exceeded'') \<and>
   no_refusal (path demo_upload) = None \<and>
   response (handler Audio demo_request (always (Inl (Error ''quota exceeded''))) undisturbed
      no_refusal demo_disk)
     = Some (500, ErrorBody ''quota exceeded'') \<and>
   generate_count (handler Audio demo_request (always (Inl (Error ''quota exceeded'')))
      undisturbed no_refusal demo_disk) = 1 \<and>
   fs_after (handler Audio demo_request (always (Inl (Error ''quota exceeded''))) undisturbed
      no_refusal demo_disk) (path demo_upload) = None \<and>
   existsSync (undisturbed demo_disk) (path demo_upload) \<and>
   filter is_unlink (events (handler Audio demo_request (always (Inl (Error ''quota exceeded'')))
      undisturbed no_refusal demo_disk)) = [Unlink InCatch (path demo_upload) None]"
proof -
  have h1: "req_file demo_request = Some demo_upload"
    by (simp add: demo_defs)
  have h2: "demo_disk (path demo_upload) = Some (File [0x4d, 0x61, 0x6e])"
    by (simp add: demo_defs)
  have h3: "always (Inl (Error ''quota exceeded''))
     (Parts [Text (js_or (body_prompt demo_request) (default_prompt Audio)),
             InlineData (base64 [0x4d, 0x61, 0x6e]) (mimetype demo_upload)])
     = Inl (Error ''quota exceeded'')"
    by (simp add: always_def)
  have h4: "existsSync (undisturbed demo_disk) (path demo_upload)"
    by (simp add: demo_defs existsSync_def)
  have h6: "no_refusal (path demo_upload) = None"
    by (simp add: demo_defs)
  then have h5: "existsSync (undisturbed demo_disk) (path demo_upload) \<longrightarrow>
      no_refusal (path demo_upload) = None"
    by simp
  show ?thesis
    using h1 h2 h3 h4 h6
      backend_failure_passed_through [where req = demo_request and f = demo_upload
        and fs = demo_disk and bs = "[0x4d, 0x61, 0x6e]" and k = Audio
        and gen = "always (Inl (Error ''quota exceeded''))" and e = "Error ''quota exceeded''"
        and env = undisturbed and busy = no_refusal, OF h1 h2 h3 h5]
    by simp
qed

text \<open>
  C5: a media endpoint called with no file attached answers with status 400 and the
  error message that names the missing kind (for the image endpoint exactly
  \<open>No image file uploaded.\<close>); it takes no step at all, so the backend is not called,
  nothing is unlinked, and the disk is unchanged.
\<close>

theorem missing_file_rejected:
  assumes "req_file req = None"
  shows "generate_from_image req gen env busy fs =
           \<lparr>response = Some (400, ErrorBody ''No image file uploaded.''), events = [],
            fs_after = fs\<rparr> \<and>
         generate_from_document req gen env busy fs =
           \<lparr>response = Some (400, ErrorBody ''No document file uploaded.''), events = [],
            fs_after = fs\<rparr> \<and>
         generate_from_audio req gen env busy fs =
           \<lparr>response = Some (400, ErrorBody ''No audio file uploaded.''), events = [],
            fs_after = fs\<rparr>"
  using assms
  by (simp add: generate_from_image_def generate_from_document_def generate_from_audio_def)

theorem missing_file_rejected_witness:
  "req_file bare_request = None \<and>
   response (generate_from_image bare_request (always (Inr ''unused'')) undisturbed no_refusal
      demo_disk)
     = Some (400, ErrorBody ''No image file uploaded.'') \<and>
   events (generate_from_image bare_request (always (Inr ''unused'')) undisturbed no_refusal
      demo_disk) = [] \<and>
   fs_after (generate_from_image bare_request (always (Inr ''unused'')) undisturbed no_refusal
      demo_disk) ''uploads/a1'' = Some (File [0x4d, 0x61, 0x6e])"
proof -
  have h: "req_file bare_request = None"
    by (simp add: demo_defs)
  show ?thesis
    using h
      missing_file_rejected [OF h, of "always (Inr ''unused'')" undisturbed no_refusal demo_disk]
    by (simp add: demo_disk_def)
qed

section \<open>What the backend is given\<close>



text \<open>
  C7: whenever a media endpoint calls the backend, a file was attached and read, and the
  parts handed over are, in this order, the resolved prompt as text and then one media
  part that holds the base64 text of the file's bytes and the upload's declared MIME
  type as it was given; the backend is called once.
\<close>

theorem parts_order:
  assumes "Generate g \<in> set (events (handler k req gen env busy fs))"
  shows "\<exists>f bs. req_file req = Some f \<and> fs (path f) = Some (File bs) \<and>
           g = Parts [Text (js_or (body_prompt req) (default_prompt k)),
                      InlineData (base64 bs) (mimetype f)] \<and>
           generate_count (handler k req gen env busy fs) = 1"
proof -
  from assms have m: "Generate g \<in> set (filter is_generate (events (handler k req gen env busy fs)))"
    by simp
  show ?thesis
  proof (cases "req_file req")
    case None
    with m show ?thesis by (simp add: generate_events)
  next
    case f: (Some f)
    show ?thesis
    proof (cases "fs (path f)")
      case None
      with m f show ?thesis by (simp add: generate_events)
    next
      case n: (Some n)
      show ?thesis
      proof (cases n)
        case (File bs)
        with m f n show ?thesis
          by (simp add: generate_events generate_count_def)
      next
        case (Unreadable r)
        with m f n show ?thesis by (simp add: generate_events)
      qed
    qed
  qed
qed

theorem parts_order_witness:
  "Generate (Parts [Text ''Summarize this document'',
                    InlineData ''JVBERg=='' ''application/pdf''])
     \<in> set (events (handler Document (doc_request\<lparr>body_prompt := None\<rparr>)
              (always (Inr ''summary'')) undisturbed no_refusal doc_disk)) \<and>
   (\<exists>f bs. req_file (doc_request\<lparr>body_prompt := None\<rparr>) = Some f \<and>
      doc_disk (path f) = Some (File bs) \<and>
      Parts [Text ''Summarize this document'', InlineData ''JVBERg=='' ''application/pdf'']
        = Parts [Text (js_or (body_prompt (doc_request\<lparr>body_prompt := None\<rparr>))
                         (default_prompt Document)),
                 InlineData (base64 bs) (mimetype f)] \<and>
      generate_count (handler Document (doc_request\<lparr>body_prompt := None\<rparr>)
              (always (Inr ''summary'')) undisturbed no_refusal doc_disk) = 1)"
proof -
  have h: "Generate (Parts [Text ''Summarize this document'',
                    InlineData ''JVBERg=='' ''application/pdf''])
     \<in> set (events (handler Document (doc_request\<lparr>body_prompt := None\<rparr>)
              (always (Inr ''summary'')) undisturbed no_refusal doc_disk))"
    by (simp add: demo_defs handler_defs enc_char_def alphabet_def)
  show ?thesis
    using h parts_order [OF h] by simp
qed

text \<open>
  C8: for a file with any bytes (none included) and any MIME type,
  \<^verbatim>\<open>fileToGenerativePart\<close> returns the media part with that MIME type whose data
  decodes from base64 to exactly the bytes of the file, and two files with the same
  bytes give the same part under the same MIME type, whatever their paths and
  whatever else is on disk.
\<close>

theorem fileToGenerativePart_lossless:
  assumes "fs p = Some (File bs)"
  shows "fileToGenerativePart fs p m = Inr (InlineData (base64 bs) m) \<and>
         base64_decode (base64 bs) = Some bs \<and>
         (fs' p' = Some (File bs) \<longrightarrow>
            fileToGenerativePart fs' p' m = fileToGenerativePart fs p m)"
  using assms
  by (simp add: fileToGenerativePart_def readFileSync_def base64_roundtrip)

theorem fileToGenerativePart_lossless_witness:
  "demo_disk ''uploads/a1'' = Some (File [0x4d, 0x61, 0x6e]) \<and>
   fileToGenerativePart demo_disk ''uploads/a1'' ''image/png''
     = Inr (InlineData ''TWFu'' ''image/png'') \<and>
   base64_decode ''TWFu'' = Some [0x4d, 0x61, 0x6e] \<and>
   [''tmp/empty'' \<mapsto> File []] ''tmp/empty'' = Some (File []) \<and>
   fileToGenerativePart [''tmp/empty'' \<mapsto> File []] ''tmp/empty'' ''text/plain''
     = Inr (InlineData [] ''text/plain'') \<and>
   base64_decode [] = Some []"
proof -
  have h1: "demo_disk ''uploads/a1'' = Some (File [0x4d, 0x61, 0x6e])"
    by (simp add: demo_disk_def)
  have h2: "[''tmp/empty'' \<mapsto> File []] ''tmp/empty'' = Some (File [])"
    by simp
  have e: "base64 [0x4d, 0x61, 0x6e] = ''TWFu''"
    by (simp add: enc_char_def alphabet_def)
  show ?thesis
    using h1 e
      fileToGenerativePart_lossless [where fs = demo_disk and p = "''uploads/a1''"
        and bs = "[0x4d, 0x61, 0x6e]" and m = "''image/png''", OF h1]
      fileToGenerativePart_lossless [where fs = "[''tmp/empty'' \<mapsto> File []]"
        and p = "''tmp/empty''" and bs = "[]" and m = "''text/plain''", OF h2]
    by simp
qed

section \<open>The three media handlers compared\<close>

text \<open>
  C9: the image, document and audio handlers are one and the same function of the
  request, the backend, the outside world and the disk, up to the default prompt and
  the message for a missing file: each is the pipeline at its two strings, so putting
  one handler's strings for another's turns the first handler into the second, with
  the same status, body, backend call and cleanup on every input. The field name,
  in which the routes differ as well, is read by the upload middleware only.
\<close>

theorem handlers_are_one_pipeline:
  "generate_from_image = pipeline ''Describe this image'' ''No image file uploaded.'' \<and>
   generate_from_document = pipeline ''Summarize this document'' ''No document file uploaded.'' \<and>
   generate_from_audio = pipeline ''Transcribe this audio'' ''No audio file uploaded.''"
  by (intro conjI ext)
     (rule generate_from_image_pipeline generate_from_document_pipeline
        generate_from_audio_pipeline)+

section \<open>The error branch\<close>

text \<open>
  C10: the catch block calls \<^verbatim>\<open>fs.unlinkSync\<close> exactly when a file was attached and
  is on disk at that moment, so when that call fails, it fails with the refusal the
  operating system has in force for the existing path and never with not-found. In a
  whole invocation, every unlink made in the catch block was made on the attached
  file's path, which was on disk when the handler started or when the backend call had
  resolved, and none of them threw a not-found error.
\<close>

theorem catch_block_unlink_never_not_found:
  "events (catch_block req error busy fs) =
     (case req_file req of
        Some f \<Rightarrow>
          if existsSync fs (path f) then
            [Unlink InCatch (path f)
               (map_option (\<lambda>r. Refused r ''unlink'' (Some (path f))) (busy (path f)))]
          else []
      | None \<Rightarrow> []) \<and>
   (Unlink InCatch p thrown \<in> set (events (catch_block req error busy fs)) \<longrightarrow>
      existsSync fs p \<and> thrown \<noteq> Some (ENOENT syscall q)) \<and>
   (Unlink InCatch p thrown \<in> set (events (handler k req gen env busy fs)) \<longrightarrow>
      (\<exists>f. req_file req = Some f \<and> path f = p) \<and>
      (existsSync fs p \<or> existsSync (env fs) p) \<and>
      thrown = map_option (\<lambda>r. Refused r ''unlink'' (Some p)) (busy p) \<and>
      thrown \<noteq> Some (ENOENT syscall q))"
  by (auto simp: handler_pipeline pipeline_defs
      split: option.splits sum.splits node.splits if_splits)

theorem catch_block_unlink_never_not_found_witness:
  "Unlink InCatch ''uploads/a1'' (Some (Refused EPERM ''unlink'' (Some ''uploads/a1'')))
     \<in> set (events (handler Audio demo_request (always (Inl (Error ''quota exceeded'')))
                     undisturbed (refusing ''uploads/a1'' EPERM) demo_disk)) \<and>
   (\<exists>f. req_file demo_request = Some f \<and> path f = ''uploads/a1'') \<and>
   (existsSync demo_disk ''uploads/a1'' \<or> existsSync (undisturbed demo_disk) ''uploads/a1'') \<and>
   Some (Refused EPERM ''unlink'' (Some ''uploads/a1''))
     = map_option (\<lambda>r. Refused r ''unlink'' (Some ''uploads/a1''))
         (refusing ''uploads/a1'' EPERM ''uploads/a1'') \<and>
   Some (Refused EPERM ''unlink'' (Some ''uploads/a1'')) \<noteq> Some (ENOENT ''unlink'' ''uploads/a1'')"
proof -
  have h: "Unlink InCatch ''uploads/a1'' (Some (Refused EPERM ''unlink'' (Some ''uploads/a1'')))
     \<in> set (events (handler Audio demo_request (always (Inl (Error ''quota exceeded'')))
                     undisturbed (refusing ''uploads/a1'' EPERM) demo_disk))"
    by (simp add: demo_defs handler_defs)
  note t = catch_block_unlink_never_not_found [where req = demo_request
        and error = "Error ''quota exceeded''" and fs = demo_disk and k = Audio
        and gen = "always (Inl (Error ''quota exceeded''))" and env = undisturbed
        and busy = "refusing ''uploads/a1'' EPERM" and p = "''uploads/a1''"
        and thrown = "Some (Refused EPERM ''unlink'' (Some ''uploads/a1''))"
        and syscall = "''unlink''" and q = "''uploads/a1''"]
  from t have "Unlink InCatch ''uploads/a1'' (Some (Refused EPERM ''unlink'' (Some ''uploads/a1'')))
     \<in> set (events (handler Audio demo_request (always (Inl (Error ''quota exceeded'')))
                     undisturbed (refusing ''uploads/a1'' EPERM) demo_disk)) \<longrightarrow>
      (\<exists>f. req_file demo_request = Some f \<and> path f = ''uploads/a1'') \<and>
      (existsSync demo_disk ''uploads/a1'' \<or> existsSync (undisturbed demo_disk) ''uploads/a1'') \<and>
      Some (Refused EPERM ''unlink'' (Some ''uploads/a1''))
        = map_option (\<lambda>r. Refused r ''unlink'' (Some ''uploads/a1''))
            (refusing ''uploads/a1'' EPERM ''uploads/a1'') \<and>
      Some (Refused EPERM ''unlink'' (Some ''uploads/a1'')) \<noteq> Some (ENOENT ''unlink'' ''uploads/a1'')"
    by (rule conjunct2 [OF conjunct2])
  with h show ?thesis by (intro conjI) (rule h, blast+)
qed

end
